theory Spec2Isabelle
  imports Main "HOL-Library.Word" "HOL-Library.AList" "HOL-Library.Char_ord" "HOL-Library.List_Lexorder"
begin

unbundle bit_operations_syntax

section \<open>Bytes, hexadecimal text and SHA-256\<close>

text \<open>
  Go strings and byte slices are sequences of bytes; both are modelled as \<open>string\<close>
  (a list of 8-bit characters), so that a ledger key, a JSON document and a private blob
  are values of one type, as they are in the chaincode.
\<close>

type_synonym bytes = string

definition byte :: "char \<Rightarrow> nat" where
  "byte c = of_char c"

definition hexdigit :: "nat \<Rightarrow> char" where
  "hexdigit n = ''0123456789abcdef'' ! (n mod 16)"

text \<open>\<^verbatim>\<open>hex.EncodeToString\<close>: two lower-case hexadecimal digits per byte.\<close>

definition hex_EncodeToString :: "bytes \<Rightarrow> string" where
  "hex_EncodeToString bs = concat (map (\<lambda>b. [hexdigit (byte b div 16), hexdigit (byte b)]) bs)"

text \<open>
  \<^verbatim>\<open>sha256.New(); hash.Write(b); hash.Sum(nil)\<close> is the SHA-256 digest of \<open>b\<close>
  (FIPS 180-4): the message is padded to a multiple of 64 bytes, and each block updates
  eight 32-bit words through 64 rounds. The round constants and the initial words are
  the leading 32 bits of the fractions of the cube roots and of the square roots of the
  first primes, written here in decimal.
\<close>

definition sha256_K :: "32 word list" where
  "sha256_K =
   [1116352408, 1899447441, 3049323471, 3921009573, 961987163, 1508970993, 2453635748, 2870763221,
    3624381080, 310598401, 607225278, 1426881987, 1925078388, 2162078206, 2614888103, 3248222580,
    3835390401, 4022224774, 264347078, 604807628, 770255983, 1249150122, 1555081692, 1996064986,
    2554220882, 2821834349, 2952996808, 3210313671, 3336571891, 3584528711, 113926993, 338241895,
    666307205, 773529912, 1294757372, 1396182291, 1695183700, 1986661051, 2177026350, 2456956037,
    2730485921, 2820302411, 3259730800, 3345764771, 3516065817, 3600352804, 4094571909, 275423344,
    430227734, 506948616, 659060556, 883997877, 958139571, 1322822218, 1537002063, 1747873779,
    1955562222, 2024104815, 2227730452, 2361852424, 2428436474, 2756734187, 3204031479, 3329325298]"

definition be_bytes :: "nat \<Rightarrow> nat \<Rightarrow> bytes" where
  "be_bytes k n = map (\<lambda>i. char_of (n div 256 ^ i)) (rev [0..<k])"

definition be_word :: "bytes \<Rightarrow> 32 word" where
  "be_word bs = of_nat (foldl (\<lambda>acc b. acc * 256 + byte b) 0 bs)"

definition sha256_pad :: "bytes \<Rightarrow> bytes" where
  "sha256_pad m =
     m @ [CHR 0x80] @ replicate ((119 - length m mod 64) mod 64) (CHR 0x00)
       @ be_bytes 8 (8 * length m)"

definition chunks :: "nat \<Rightarrow> 'a list \<Rightarrow> 'a list list" where
  "chunks k xs = map (\<lambda>i. take k (drop (k * i) xs)) [0..<length xs div k]"

definition ssig0 :: "32 word \<Rightarrow> 32 word" where
  "ssig0 x = word_rotr 7 x XOR word_rotr 18 x XOR drop_bit 3 x"

definition ssig1 :: "32 word \<Rightarrow> 32 word" where
  "ssig1 x = word_rotr 17 x XOR word_rotr 19 x XOR drop_bit 10 x"

definition bsig0 :: "32 word \<Rightarrow> 32 word" where
  "bsig0 x = word_rotr 2 x XOR word_rotr 13 x XOR word_rotr 22 x"

definition bsig1 :: "32 word \<Rightarrow> 32 word" where
  "bsig1 x = word_rotr 6 x XOR word_rotr 11 x XOR word_rotr 25 x"

fun sha256_schedule :: "nat \<Rightarrow> 32 word list \<Rightarrow> 32 word list" where
  "sha256_schedule 0 w = w"
| "sha256_schedule (Suc n) w =
     sha256_schedule n
       (w @ [ssig1 (w ! (length w - 2)) + w ! (length w - 7)
             + ssig0 (w ! (length w - 15)) + w ! (length w - 16)])"

type_synonym sha256_state =
  "32 word \<times> 32 word \<times> 32 word \<times> 32 word \<times> 32 word \<times> 32 word \<times> 32 word \<times> 32 word"

definition sha256_round :: "32 word \<times> 32 word \<Rightarrow> sha256_state \<Rightarrow> sha256_state" where
  "sha256_round kw s =
     (case s of (a, b, c, d, e, f, g, h) \<Rightarrow>
        let t1 = h + bsig1 e + ((e AND f) XOR (NOT e AND g)) + fst kw + snd kw;
            t2 = bsig0 a + ((a AND b) XOR (a AND c) XOR (b AND c))
        in (t1 + t2, a, b, c, d + t1, e, f, g))"

definition sha256_add :: "sha256_state \<Rightarrow> sha256_state \<Rightarrow> sha256_state" where
  "sha256_add s t =
     (case s of (a, b, c, d, e, f, g, h) \<Rightarrow>
      case t of (a', b', c', d', e', f', g', h') \<Rightarrow>
        (a + a', b + b', c + c', d + d', e + e', f + f', g + g', h + h'))"

definition sha256_block :: "bytes \<Rightarrow> sha256_state \<Rightarrow> sha256_state" where
  "sha256_block blk hs =
     sha256_add hs
       (fold sha256_round (zip sha256_K (sha256_schedule 48 (map be_word (chunks 4 blk)))) hs)"

definition sha256_init :: "sha256_state" where
  "sha256_init =
   (1779033703, 3144134277, 1013904242, 2773480762, 1359893119, 2600822924, 528734635, 1541459225)"

definition sha256 :: "bytes \<Rightarrow> bytes" where
  "sha256 m =
     (case fold sha256_block (chunks 64 (sha256_pad m)) sha256_init of
        (a, b, c, d, e, f, g, h) \<Rightarrow>
          concat (map (\<lambda>w. be_bytes 4 (unat w)) [a, b, c, d, e, f, g, h]))"


section \<open>JSON, as \<^verbatim>\<open>encoding/json\<close> writes and reads it\<close>

text \<open>
  The chaincode stores its public records as the output of \<^verbatim>\<open>json.Marshal\<close> and reads
  them, and the disclosed transfer agreement, with \<^verbatim>\<open>json.Unmarshal\<close>. The encoder
  escapes the quotation mark, the backslash, the control characters and (as the library
  does by default) \<open><\<close>, \<open>>\<close> and \<open>&\<close>. Bytes from 0x80 on are copied unchanged in both
  directions, which is what the library does for well-formed UTF-8 text.
\<close>

datatype json =
    JNull
  | JBool bool
  | JNumber string
  | JString string
  | JArray "json list"
  | JObject "(string \<times> json) list"

definition is_digit :: "char \<Rightarrow> bool" where
  "is_digit c = (48 \<le> byte c \<and> byte c \<le> 57)"

definition hexval :: "char \<Rightarrow> nat option" where
  "hexval c =
     (if 48 \<le> byte c \<and> byte c \<le> 57 then Some (byte c - 48)
      else if 97 \<le> byte c \<and> byte c \<le> 102 then Some (byte c - 87)
      else if 65 \<le> byte c \<and> byte c \<le> 70 then Some (byte c - 55)
      else None)"

subsection \<open>Encoding\<close>

definition json_escape :: "char \<Rightarrow> string" where
  "json_escape c =
     (if c = CHR 0x22 then [CHR 0x5C, CHR 0x22]
      else if c = CHR 0x5C then [CHR 0x5C, CHR 0x5C]
      else if c = CHR 0x0A then [CHR 0x5C, CHR ''n'']
      else if c = CHR 0x0D then [CHR 0x5C, CHR ''r'']
      else if c = CHR 0x09 then [CHR 0x5C, CHR ''t'']
      else if byte c < 32 \<or> c = CHR ''<'' \<or> c = CHR ''>'' \<or> c = CHR ''&''
        then [CHR 0x5C, CHR ''u'', CHR ''0'', CHR ''0'', hexdigit (byte c div 16), hexdigit (byte c)]
      else [c])"

definition json_string :: "string \<Rightarrow> bytes" where
  "json_string s = CHR 0x22 # concat (map json_escape s) @ [CHR 0x22]"

fun json_members :: "(string \<times> bytes) list \<Rightarrow> bytes" where
  "json_members [] = []"
| "json_members [(k, v)] = json_string k @ CHR '':'' # v"
| "json_members ((k, v) # m # ms) = json_string k @ CHR '':'' # v @ CHR '','' # json_members (m # ms)"

definition json_object :: "(string \<times> bytes) list \<Rightarrow> bytes" where
  "json_object ms = CHR ''{'' # json_members ms @ [CHR ''}'']"

subsection \<open>Decoding\<close>

text \<open>
  The reader is a recursive-descent parser. Strings are scanned by structural recursion;
  values nest, so \<open>parse_value\<close> takes a bound on the number of nested and consecutive
  values it may still read, and \<open>json_parse\<close> starts it with more than the input can
  hold. The whole input must be one value, surrounded by white space only.
\<close>

definition is_space :: "char \<Rightarrow> bool" where
  "is_space c = (c = CHR 0x20 \<or> c = CHR 0x09 \<or> c = CHR 0x0A \<or> c = CHR 0x0D)"

definition skip_space :: "string \<Rightarrow> string" where
  "skip_space s = dropWhile is_space s"

definition utf8_encode :: "nat \<Rightarrow> string" where
  "utf8_encode cp =
     (if cp < 0x80 then [char_of cp]
      else if cp < 0x800 then [char_of (0xC0 + cp div 64), char_of (0x80 + cp mod 64)]
      else if cp < 0x10000 then
        [char_of (0xE0 + cp div 4096), char_of (0x80 + cp div 64 mod 64), char_of (0x80 + cp mod 64)]
      else
        [char_of (0xF0 + cp div 262144), char_of (0x80 + cp div 4096 mod 64),
         char_of (0x80 + cp div 64 mod 64), char_of (0x80 + cp mod 64)])"

definition hex4 :: "char \<Rightarrow> char \<Rightarrow> char \<Rightarrow> char \<Rightarrow> nat option" where
  "hex4 a b c d =
     (case (hexval a, hexval b, hexval c, hexval d) of
        (Some w, Some x, Some y, Some z) \<Rightarrow> Some (((w * 16 + x) * 16 + y) * 16 + z)
      | _ \<Rightarrow> None)"

definition getu4 :: "string \<Rightarrow> nat option" where
  "getu4 s =
     (case s of
        e # u # a # b # c # d # _ \<Rightarrow>
          if e = CHR 0x5C \<and> u = CHR ''u'' then hex4 a b c d else None
      | _ \<Rightarrow> None)"

definition simple_escape :: "char \<Rightarrow> char option" where
  "simple_escape e =
     (if e = CHR 0x22 \<or> e = CHR 0x5C \<or> e = CHR ''/'' then Some e
      else if e = CHR ''b'' then Some (CHR 0x08)
      else if e = CHR ''f'' then Some (CHR 0x0C)
      else if e = CHR ''n'' then Some (CHR 0x0A)
      else if e = CHR ''r'' then Some (CHR 0x0D)
      else if e = CHR ''t'' then Some (CHR 0x09)
      else None)"

fun scan_string :: "string \<Rightarrow> (string \<times> string) option" where
  "scan_string [] = None"
| "scan_string (c # cs) =
     (if c = CHR 0x22 then Some ([], cs)
      else if c = CHR 0x5C then
        (case cs of
           [] \<Rightarrow> None
         | e # cs1 \<Rightarrow>
             if e = CHR ''u'' then
               (case cs1 of
                  h1 # h2 # h3 # h4 # cs2 \<Rightarrow>
                    (case hex4 h1 h2 h3 h4 of
                       None \<Rightarrow> None
                     | Some rr \<Rightarrow>
                         if 0xD800 \<le> rr \<and> rr < 0xE000 then
                           (case cs2 of
                              e' # u' # l1 # l2 # l3 # l4 # cs3 \<Rightarrow>
                                (case getu4 cs2 of
                                   Some rr1 \<Rightarrow>
                                     if rr < 0xDC00 \<and> 0xDC00 \<le> rr1 \<and> rr1 < 0xE000 then
                                       map_option
                                         (apfst ((@) (utf8_encode
                                            (0x10000 + (rr - 0xD800) * 0x400 + (rr1 - 0xDC00)))))
                                         (scan_string cs3)
                                     else map_option (apfst ((@) (utf8_encode 0xFFFD))) (scan_string cs2)
                                 | None \<Rightarrow>
                                     map_option (apfst ((@) (utf8_encode 0xFFFD))) (scan_string cs2))
                            | _ \<Rightarrow> map_option (apfst ((@) (utf8_encode 0xFFFD))) (scan_string cs2))
                         else map_option (apfst ((@) (utf8_encode rr))) (scan_string cs2))
                | _ \<Rightarrow> None)
             else
               (case simple_escape e of
                  None \<Rightarrow> None
                | Some x \<Rightarrow> map_option (apfst ((#) x)) (scan_string cs1)))
      else if byte c < 32 then None
      else map_option (apfst ((#) c)) (scan_string cs))"

definition is_numchar :: "char \<Rightarrow> bool" where
  "is_numchar c =
     (is_digit c \<or> c = CHR ''-'' \<or> c = CHR ''+'' \<or> c = CHR ''.'' \<or> c = CHR ''e'' \<or> c = CHR ''E'')"

definition valid_int_part :: "string \<Rightarrow> bool" where
  "valid_int_part s = (s \<noteq> [] \<and> list_all is_digit s \<and> (hd s = CHR ''0'' \<longrightarrow> length s = 1))"

definition valid_exp_part :: "string \<Rightarrow> bool" where
  "valid_exp_part s =
     (case s of
        [] \<Rightarrow> True
      | e # r \<Rightarrow>
          (e = CHR ''e'' \<or> e = CHR ''E'') \<and>
          (let d = (case r of [] \<Rightarrow> [] | g # r' \<Rightarrow> if g = CHR ''+'' \<or> g = CHR ''-'' then r' else r)
           in d \<noteq> [] \<and> list_all is_digit d))"

definition valid_frac_exp :: "string \<Rightarrow> bool" where
  "valid_frac_exp s =
     (case s of
        [] \<Rightarrow> True
      | p # r \<Rightarrow>
          if p = CHR ''.'' then takeWhile is_digit r \<noteq> [] \<and> valid_exp_part (dropWhile is_digit r)
          else valid_exp_part s)"

definition valid_number :: "string \<Rightarrow> bool" where
  "valid_number s =
     (let u = (case s of [] \<Rightarrow> [] | m # r \<Rightarrow> if m = CHR ''-'' then r else s)
      in valid_int_part (takeWhile is_digit u) \<and> valid_frac_exp (dropWhile is_digit u))"

fun strip_prefix :: "string \<Rightarrow> string \<Rightarrow> string option" where
  "strip_prefix [] s = Some s"
| "strip_prefix (p # ps) [] = None"
| "strip_prefix (p # ps) (c # cs) = (if p = c then strip_prefix ps cs else None)"

fun parse_value :: "nat \<Rightarrow> string \<Rightarrow> (json \<times> string) option"
  and parse_array :: "nat \<Rightarrow> string \<Rightarrow> (json list \<times> string) option"
  and parse_object :: "nat \<Rightarrow> string \<Rightarrow> ((string \<times> json) list \<times> string) option"
where
  "parse_value 0 s = None"
| "parse_value (Suc n) s =
     (case skip_space s of
        [] \<Rightarrow> None
      | c # cs \<Rightarrow>
          if c = CHR ''{'' then
            (case skip_space cs of
               [] \<Rightarrow> None
             | d # ds \<Rightarrow>
                 if d = CHR ''}'' then Some (JObject [], ds)
                 else map_option (apfst JObject) (parse_object n (d # ds)))
          else if c = CHR ''['' then
            (case skip_space cs of
               [] \<Rightarrow> None
             | d # ds \<Rightarrow>
                 if d = CHR '']'' then Some (JArray [], ds)
                 else map_option (apfst JArray) (parse_array n (d # ds)))
          else if c = CHR 0x22 then map_option (apfst JString) (scan_string cs)
          else if c = CHR ''t'' then map_option (Pair (JBool True)) (strip_prefix ''rue'' cs)
          else if c = CHR ''f'' then map_option (Pair (JBool False)) (strip_prefix ''alse'' cs)
          else if c = CHR ''n'' then map_option (Pair JNull) (strip_prefix ''ull'' cs)
          else if c = CHR ''-'' \<or> is_digit c then
            (if valid_number (takeWhile is_numchar (c # cs))
             then Some (JNumber (takeWhile is_numchar (c # cs)), dropWhile is_numchar (c # cs))
             else None)
          else None)"
| "parse_array 0 s = None"
| "parse_array (Suc n) s =
     (case parse_value n s of
        None \<Rightarrow> None
      | Some (v, r) \<Rightarrow>
          (case skip_space r of
             [] \<Rightarrow> None
           | c # cs \<Rightarrow>
               if c = CHR '','' then map_option (apfst ((#) v)) (parse_array n cs)
               else if c = CHR '']'' then Some ([v], cs)
               else None))"
| "parse_object 0 s = None"
| "parse_object (Suc n) s =
     (case skip_space s of
        [] \<Rightarrow> None
      | q # cs \<Rightarrow>
          if q \<noteq> CHR 0x22 then None
          else
            (case scan_string cs of
               None \<Rightarrow> None
             | Some (k, r) \<Rightarrow>
                 (case skip_space r of
                    [] \<Rightarrow> None
                  | c # r1 \<Rightarrow>
                      if c \<noteq> CHR '':'' then None
                      else
                        (case parse_value n r1 of
                           None \<Rightarrow> None
                         | Some (v, r2) \<Rightarrow>
                             (case skip_space r2 of
                                [] \<Rightarrow> None
                              | d # r3 \<Rightarrow>
                                  if d = CHR '','' then
                                    map_option (apfst ((#) (k, v))) (parse_object n r3)
                                  else if d = CHR ''}'' then Some ([(k, v)], r3)
                                  else None)))))"

definition json_parse :: "bytes \<Rightarrow> json option" where
  "json_parse s =
     (case parse_value (Suc (length s)) s of
        None \<Rightarrow> None
      | Some (v, r) \<Rightarrow> if skip_space r = [] then Some v else None)"



section \<open>Errors\<close>

text \<open>
  The calls the chaincode makes to the ledger host. The host may refuse any of them (the Go
  call then returns a non-nil \<^verbatim>\<open>err\<close>); which ones it refuses is part of the
  transaction stub below.
\<close>

datatype call =
    Call_ClientMSPID
  | Call_PeerMSPID
  | Call_GetTransient
  | Call_GetTxTimestamp
  | Call_GetState string
  | Call_PutState string
  | Call_SetStateValidationParameter string
  | Call_GetPrivateData string string
  | Call_GetPrivateDataHash string string
  | Call_PutPrivateData string string
  | Call_DelPrivateData string string
  | Call_CreateCompositeKey string "string list"
  | Call_GetPrivateDataByPartialCompositeKey string string
  | Call_GetHistoryForKey string

text \<open>
  A Go \<^verbatim>\<open>error\<close>. \<open>Errorf f args\<close> is \<^verbatim>\<open>fmt.Errorf(f, args...)\<close> with string or
  byte arguments, \<open>Wrap f err\<close> is \<^verbatim>\<open>fmt.Errorf(f, err)\<close> with the format's \<^verbatim>\<open>%v\<close>
  standing for \<open>err\<close>; both keep the format string of the source. The others are the
  errors of the libraries: a refused host call, input that is not JSON, a JSON value of the
  wrong type for its field, a timestamp outside years 1 to 9999, and the run-time panic of
  a nil pointer dereference.
\<close>

datatype error =
    Errorf string "string list"
  | Wrap string error
  | Refused call
  | SyntaxError
  | UnmarshalTypeError
  | TimestampError
  | NilPointerPanic

section \<open>The records of the chaincode\<close>

text \<open>\<^verbatim>\<open>Agreement\<close> (Quires.go, line 19).\<close>

record Agreement =
  ID :: string
  TransferKey :: int
  TransferID :: string

text \<open>\<^verbatim>\<open>Commodity\<close> (TransFer.go, line 30).\<close>

record Commodity =
  ObjectType :: string
  ID :: string
  OwnerOrg :: string
  Source :: string
  Target :: string
  PublicDescription :: string
  DetailedInformation :: string

text \<open>
  A protobuf timestamp, as the transaction header carries it, and a \<^verbatim>\<open>time.Time\<close> in
  UTC: seconds since 1970-01-01 and nanoseconds.
\<close>

record Timestamp =
  Seconds :: int
  Nanos :: int

record Time =
  sec :: int
  nsec :: int

text \<open>\<^verbatim>\<open>receipt\<close> (TransFer.go, line 39): both fields are lower-case, hence unexported.\<close>

record receipt =
  transferKey :: int
  timestamp :: Time

text \<open>\<^verbatim>\<open>QueryResult\<close> (Quires.go, line 13); \<open>Record\<close> is a pointer, \<open>None\<close> is nil.\<close>

record QueryResult =
  Record :: "Commodity option"
  TxId :: string
  Timestamp :: Time

subsection \<open>Timestamps\<close>

text \<open>
  \<^verbatim>\<open>ptypes.Timestamp\<close>: the time of a protobuf timestamp, an error unless it lies from
  0001-01-01 up to (not including) 10000-01-01 with nanoseconds below one second.
\<close>

definition ptypes_Timestamp :: "Timestamp \<Rightarrow> error + Time" where
  "ptypes_Timestamp ts =
     (if Seconds ts < - 62135596800 \<or> 253402300800 \<le> Seconds ts
         \<or> Nanos ts < 0 \<or> 1000000000 \<le> Nanos ts
      then Inl TimestampError
      else Inr \<lparr>sec = Seconds ts, nsec = Nanos ts\<rparr>)"

definition digits :: "nat \<Rightarrow> nat \<Rightarrow> string" where
  "digits k n = map (\<lambda>i. char_of (48 + n div 10 ^ i mod 10)) (rev [0..<k])"

function decimal :: "nat \<Rightarrow> string" where
  "decimal n = (if n < 10 then [char_of (48 + n)] else decimal (n div 10) @ [char_of (48 + n mod 10)])"
  by pat_completeness auto
termination
  by (relation "measure id") auto

text \<open>The civil date of a day number (days since 1970-01-01): year, month, day.\<close>

definition civil_from_days :: "int \<Rightarrow> int \<times> int \<times> int" where
  "civil_from_days z0 =
     (let z = z0 + 719468;
          era = z div 146097;
          doe = z - era * 146097;
          yoe = (doe - doe div 1460 + doe div 36524 - doe div 146096) div 365;
          doy = doe - (365 * yoe + yoe div 4 - yoe div 100);
          mp = (5 * doy + 2) div 153;
          d = doy - (153 * mp + 2) div 5 + 1;
          m = (if mp < 10 then mp + 3 else mp - 9);
          y = yoe + era * 400 + (if m \<le> 2 then 1 else 0)
      in (y, m, d))"

text \<open>
  \<^verbatim>\<open>Time.MarshalJSON\<close>: the quoted RFC 3339 text with the fraction's trailing zeros
  dropped; an error when the year is outside 0 to 9999.
\<close>

definition Time_MarshalJSON :: "Time \<Rightarrow> error + bytes" where
  "Time_MarshalJSON t =
     (case civil_from_days (sec t div 86400) of
        (y, m, d) \<Rightarrow>
          if y < 0 \<or> 10000 \<le> y then Inl TimestampError
          else
            let s = nat (sec t mod 86400);
                frac = rev (dropWhile (\<lambda>c. c = CHR ''0'') (rev (digits 9 (nat (nsec t)))))
            in Inr (CHR 0x22 # digits 4 (nat y) @ ''-'' @ digits 2 (nat m) @ ''-'' @ digits 2 (nat d)
                    @ ''T'' @ digits 2 (s div 3600) @ '':'' @ digits 2 (s div 60 mod 60)
                    @ '':'' @ digits 2 (s mod 60)
                    @ (if frac = [] then [] else CHR ''.'' # frac) @ ''Z'' @ [CHR 0x22]))"

subsection \<open>\<^verbatim>\<open>json.Marshal\<close> of a struct\<close>

text \<open>
  \<^verbatim>\<open>json.Marshal\<close> writes a struct as an object of its exported fields (those whose
  Go name starts with an upper-case letter), each under the name its tag gives, in the
  order of the declaration; an unexported field is skipped and its value never encoded.
  A struct is given here by its fields: Go name, JSON name and the encoding of the value.
\<close>

definition exported :: "string \<Rightarrow> bool" where
  "exported name = (case name of [] \<Rightarrow> False | c # _ \<Rightarrow> 65 \<le> byte c \<and> byte c \<le> 90)"

fun encode_fields :: "(string \<times> string \<times> (error + bytes)) list \<Rightarrow> error + (string \<times> bytes) list" where
  "encode_fields [] = Inr []"
| "encode_fields ((goname, tag, v) # fs) =
     (if exported goname then
        (case v of
           Inl err \<Rightarrow> Inl err
         | Inr b \<Rightarrow>
             (case encode_fields fs of
                Inl err \<Rightarrow> Inl err
              | Inr ms \<Rightarrow> Inr ((tag, b) # ms)))
      else encode_fields fs)"

definition json_Marshal_struct :: "(string \<times> string \<times> (error + bytes)) list \<Rightarrow> error + bytes" where
  "json_Marshal_struct fs =
     (case encode_fields fs of Inl err \<Rightarrow> Inl err | Inr ms \<Rightarrow> Inr (json_object ms))"

definition json_int :: "int \<Rightarrow> bytes" where
  "json_int i = (if i < 0 then CHR ''-'' # decimal (nat (- i)) else decimal (nat i))"

definition json_Marshal_Commodity :: "Commodity \<Rightarrow> error + bytes" where
  "json_Marshal_Commodity c =
     json_Marshal_struct
       [(''ObjectType'', ''objectType'', Inr (json_string (ObjectType c))),
        (''ID'', ''commodityID'', Inr (json_string (ID c))),
        (''OwnerOrg'', ''ownerCompany'', Inr (json_string (OwnerOrg c))),
        (''Source'', ''source'', Inr (json_string (Source c))),
        (''Target'', ''target'', Inr (json_string (Target c))),
        (''PublicDescription'', ''publicDescription'', Inr (json_string (PublicDescription c))),
        (''DetailedInformation'', ''detailedInformation'',
           Inr (json_string (DetailedInformation c)))]"

definition json_Marshal_receipt :: "receipt \<Rightarrow> error + bytes" where
  "json_Marshal_receipt r =
     json_Marshal_struct
       [(''transferKey'', ''transferKey'', Inr (json_int (transferKey r))),
        (''timestamp'', ''timestamp'', Time_MarshalJSON (timestamp r))]"

subsection \<open>\<^verbatim>\<open>json.Unmarshal\<close> into a struct\<close>

text \<open>
  \<^verbatim>\<open>json.Unmarshal\<close> first requires the input to be JSON. An object is then read member
  by member: a key selects the field whose JSON name it equals, or else equals up to the
  case of ASCII letters; other keys are skipped; \<open>null\<close> leaves the field as it is; a
  value of another type than the field's is an error. The document \<open>null\<close> leaves a
  struct as it is and a pointer nil; any other document that is not an object is an error.
\<close>

definition ascii_lower :: "char \<Rightarrow> char" where
  "ascii_lower c = (if 65 \<le> byte c \<and> byte c \<le> 90 then char_of (byte c + 32) else c)"

definition field_for :: "string list \<Rightarrow> string \<Rightarrow> string option" where
  "field_for tags k =
     (case find (\<lambda>t. t = k) tags of
        Some t \<Rightarrow> Some t
      | None \<Rightarrow> find (\<lambda>t. map ascii_lower t = map ascii_lower k) tags)"

definition Commodity_tags :: "string list" where
  "Commodity_tags =
     [''objectType'', ''commodityID'', ''ownerCompany'', ''source'', ''target'',
      ''publicDescription'', ''detailedInformation'']"

definition Commodity_set :: "string \<Rightarrow> string \<Rightarrow> Commodity \<Rightarrow> Commodity" where
  "Commodity_set t s c =
     (if t = ''objectType'' then c\<lparr>ObjectType := s\<rparr>
      else if t = ''commodityID'' then c\<lparr>ID := s\<rparr>
      else if t = ''ownerCompany'' then c\<lparr>OwnerOrg := s\<rparr>
      else if t = ''source'' then c\<lparr>Source := s\<rparr>
      else if t = ''target'' then c\<lparr>Target := s\<rparr>
      else if t = ''publicDescription'' then c\<lparr>PublicDescription := s\<rparr>
      else c\<lparr>DetailedInformation := s\<rparr>)"

fun decode_Commodity :: "(string \<times> json) list \<Rightarrow> Commodity \<Rightarrow> error + Commodity" where
  "decode_Commodity [] c = Inr c"
| "decode_Commodity ((k, v) # ms) c =
     (case field_for Commodity_tags k of
        None \<Rightarrow> decode_Commodity ms c
      | Some t \<Rightarrow>
          (case v of
             JNull \<Rightarrow> decode_Commodity ms c
           | JString s \<Rightarrow> decode_Commodity ms (Commodity_set t s c)
           | _ \<Rightarrow> Inl UnmarshalTypeError))"

definition Commodity_zero :: Commodity where
  "Commodity_zero =
     \<lparr>ObjectType = [], ID = [], OwnerOrg = [], Source = [], Target = [],
      PublicDescription = [], DetailedInformation = []\<rparr>"

text \<open>Into a nil \<^verbatim>\<open>*Commodity\<close>, as \<^verbatim>\<open>ReadCommodity\<close> does.\<close>

definition json_Unmarshal_Commodity :: "bytes \<Rightarrow> error + Commodity option" where
  "json_Unmarshal_Commodity b =
     (case json_parse b of
        None \<Rightarrow> Inl SyntaxError
      | Some JNull \<Rightarrow> Inr None
      | Some (JObject ms) \<Rightarrow>
          (case decode_Commodity ms Commodity_zero of
             Inl err \<Rightarrow> Inl err
           | Inr c \<Rightarrow> Inr (Some c))
      | Some _ \<Rightarrow> Inl UnmarshalTypeError)"

text \<open>
  A number read into a Go \<^verbatim>\<open>int\<close>: an optional minus sign and digits only, within 64
  bits.
\<close>

definition parse_int64 :: "string \<Rightarrow> int option" where
  "parse_int64 lit =
     (let ds = (case lit of [] \<Rightarrow> [] | m # r \<Rightarrow> if m = CHR ''-'' then r else lit);
          n = foldl (\<lambda>acc d. acc * 10 + (int (byte d) - 48)) 0 ds;
          i = (if ds = lit then n else - n)
      in if ds \<noteq> [] \<and> list_all is_digit ds \<and> - (2 ^ 63) \<le> i \<and> i < 2 ^ 63
         then Some i else None)"

definition Agreement_tags :: "string list" where
  "Agreement_tags = [''commodity'', ''transferKey'', ''transfer_id'']"

fun decode_Agreement :: "(string \<times> json) list \<Rightarrow> Agreement \<Rightarrow> error + Agreement" where
  "decode_Agreement [] a = Inr a"
| "decode_Agreement ((k, v) # ms) a =
     (case field_for Agreement_tags k of
        None \<Rightarrow> decode_Agreement ms a
      | Some t \<Rightarrow>
          if t = ''transferKey'' then
            (case v of
               JNull \<Rightarrow> decode_Agreement ms a
             | JNumber lit \<Rightarrow>
                 (case parse_int64 lit of
                    None \<Rightarrow> Inl UnmarshalTypeError
                  | Some i \<Rightarrow> decode_Agreement ms (a\<lparr>TransferKey := i\<rparr>))
             | _ \<Rightarrow> Inl UnmarshalTypeError)
          else
            (case v of
               JNull \<Rightarrow> decode_Agreement ms a
             | JString s \<Rightarrow>
                 decode_Agreement ms
                   (if t = ''commodity'' then a\<lparr>Agreement.ID := s\<rparr> else a\<lparr>TransferID := s\<rparr>)
             | _ \<Rightarrow> Inl UnmarshalTypeError))"

definition Agreement_zero :: Agreement where
  "Agreement_zero = \<lparr>Agreement.ID = [], TransferKey = 0, TransferID = []\<rparr>"

definition json_Unmarshal_Agreement :: "bytes \<Rightarrow> error + Agreement" where
  "json_Unmarshal_Agreement b =
     (case json_parse b of
        None \<Rightarrow> Inl SyntaxError
      | Some JNull \<Rightarrow> Inr Agreement_zero
      | Some (JObject ms) \<Rightarrow> decode_Agreement ms Agreement_zero
      | Some _ \<Rightarrow> Inl UnmarshalTypeError)"

section \<open>The ledger and the transaction stub\<close>

text \<open>
  The ledger host is not part of the chaincode. It is modelled at its interface: a public
  world state and its key-level endorsement policies, the private collections (a key is a
  collection name and a key inside it), and the history of the public keys. A policy made
  by \<^verbatim>\<open>statebased\<close> requires every listed organization; it is modelled by the set of
  organizations with their roles.
\<close>

datatype RoleType = RoleTypeMember | RoleTypePeer

type_synonym policy = "(string \<times> RoleType) set"

record ledger =
  world :: "(string \<times> bytes) list"
  params :: "(string \<times> policy) list"
  pdata :: "((string \<times> string) \<times> bytes) list"
  hist :: "(string \<times> string \<times> Timestamp \<times> bytes) list"

text \<open>
  A chaincode invocation is simulated against the committed ledger: its reads see the
  committed state, its writes are collected in order, and the host applies them only when
  the invocation returns without error.
\<close>

datatype writeop =
    PutStateW string bytes
  | SetParamW string policy
  | PutPrivateW string string bytes
  | DelPrivateW string string

record stub =
  clientMSPID :: string
  peerMSPID :: string
  transient :: "string \<rightharpoonup> bytes"
  txID :: string
  txTimestamp :: Timestamp
  snapshot :: ledger
  refused :: "call \<Rightarrow> bool"

definition healthy :: "stub \<Rightarrow> bool" where
  "healthy stub = (\<forall>c. \<not> refused stub c)"

definition GetMSPID :: "stub \<Rightarrow> error + string" where
  "GetMSPID stub =
     (if refused stub Call_ClientMSPID then Inl (Refused Call_ClientMSPID)
      else Inr (clientMSPID stub))"

definition shim_GetMSPID :: "stub \<Rightarrow> error + string" where
  "shim_GetMSPID stub =
     (if refused stub Call_PeerMSPID then Inl (Refused Call_PeerMSPID)
      else Inr (peerMSPID stub))"

definition GetTransient :: "stub \<Rightarrow> error + (string \<rightharpoonup> bytes)" where
  "GetTransient stub =
     (if refused stub Call_GetTransient then Inl (Refused Call_GetTransient)
      else Inr (transient stub))"

definition GetTxID :: "stub \<Rightarrow> string" where
  "GetTxID stub = txID stub"

definition GetTxTimestamp :: "stub \<Rightarrow> error + Timestamp" where
  "GetTxTimestamp stub =
     (if refused stub Call_GetTxTimestamp then Inl (Refused Call_GetTxTimestamp)
      else Inr (txTimestamp stub))"

definition GetState :: "stub \<Rightarrow> string \<Rightarrow> error + bytes option" where
  "GetState stub key =
     (if refused stub (Call_GetState key) then Inl (Refused (Call_GetState key))
      else Inr (map_of (world (snapshot stub)) key))"

definition GetPrivateData :: "stub \<Rightarrow> string \<Rightarrow> string \<Rightarrow> error + bytes option" where
  "GetPrivateData stub collection key =
     (if refused stub (Call_GetPrivateData collection key)
      then Inl (Refused (Call_GetPrivateData collection key))
      else Inr (map_of (pdata (snapshot stub)) (collection, key)))"

text \<open>The host keeps the SHA-256 digest of every private entry and discloses it.\<close>

definition GetPrivateDataHash :: "stub \<Rightarrow> string \<Rightarrow> string \<Rightarrow> error + bytes option" where
  "GetPrivateDataHash stub collection key =
     (if refused stub (Call_GetPrivateDataHash collection key)
      then Inl (Refused (Call_GetPrivateDataHash collection key))
      else Inr (map_option sha256 (map_of (pdata (snapshot stub)) (collection, key))))"

text \<open>
  A composite key is the object type and the attributes, each followed by the byte 0,
  after a leading byte 0.
\<close>

definition compositeKey :: "string \<Rightarrow> string list \<Rightarrow> string" where
  "compositeKey objectType attributes =
     CHR 0x00 # objectType @ CHR 0x00 # concat (map (\<lambda>a. a @ [CHR 0x00]) attributes)"

definition CreateCompositeKey :: "stub \<Rightarrow> string \<Rightarrow> string list \<Rightarrow> error + string" where
  "CreateCompositeKey stub objectType attributes =
     (if refused stub (Call_CreateCompositeKey objectType attributes)
      then Inl (Refused (Call_CreateCompositeKey objectType attributes))
      else Inr (compositeKey objectType attributes))"

definition GetPrivateDataByPartialCompositeKey ::
    "stub \<Rightarrow> string \<Rightarrow> string \<Rightarrow> string list \<Rightarrow> error + (string \<times> bytes) list" where
  "GetPrivateDataByPartialCompositeKey stub collection objectType attributes =
     (if refused stub (Call_GetPrivateDataByPartialCompositeKey collection objectType)
      then Inl (Refused (Call_GetPrivateDataByPartialCompositeKey collection objectType))
      else
        let p = compositeKey objectType attributes
        in Inr (sort_key fst
                 (map (\<lambda>e. (snd (fst e), snd e))
                    (filter (\<lambda>e. fst (fst e) = collection \<and> take (length p) (snd (fst e)) = p)
                       (pdata (snapshot stub))))))"

definition GetHistoryForKey :: "stub \<Rightarrow> string \<Rightarrow> error + (string \<times> Timestamp \<times> bytes) list" where
  "GetHistoryForKey stub key =
     (if refused stub (Call_GetHistoryForKey key) then Inl (Refused (Call_GetHistoryForKey key))
      else Inr (map snd (filter (\<lambda>e. fst e = key) (hist (snapshot stub)))))"

text \<open>The writing calls take the writes issued so far and return them extended.\<close>

definition PutState :: "stub \<Rightarrow> string \<Rightarrow> bytes \<Rightarrow> writeop list \<Rightarrow> (error + unit) \<times> writeop list" where
  "PutState stub key v ws =
     (if refused stub (Call_PutState key) then (Inl (Refused (Call_PutState key)), ws)
      else (Inr (), ws @ [PutStateW key v]))"

definition SetStateValidationParameter ::
    "stub \<Rightarrow> string \<Rightarrow> policy \<Rightarrow> writeop list \<Rightarrow> (error + unit) \<times> writeop list" where
  "SetStateValidationParameter stub key ep ws =
     (if refused stub (Call_SetStateValidationParameter key)
      then (Inl (Refused (Call_SetStateValidationParameter key)), ws)
      else (Inr (), ws @ [SetParamW key ep]))"

definition PutPrivateData ::
    "stub \<Rightarrow> string \<Rightarrow> string \<Rightarrow> bytes \<Rightarrow> writeop list \<Rightarrow> (error + unit) \<times> writeop list" where
  "PutPrivateData stub collection key v ws =
     (if refused stub (Call_PutPrivateData collection key)
      then (Inl (Refused (Call_PutPrivateData collection key)), ws)
      else (Inr (), ws @ [PutPrivateW collection key v]))"

definition DelPrivateData ::
    "stub \<Rightarrow> string \<Rightarrow> string \<Rightarrow> writeop list \<Rightarrow> (error + unit) \<times> writeop list" where
  "DelPrivateData stub collection key ws =
     (if refused stub (Call_DelPrivateData collection key)
      then (Inl (Refused (Call_DelPrivateData collection key)), ws)
      else (Inr (), ws @ [DelPrivateW collection key]))"

text \<open>Committing a transaction applies its writes in order.\<close>

fun apply_write :: "string \<Rightarrow> Timestamp \<Rightarrow> writeop \<Rightarrow> ledger \<Rightarrow> ledger" where
  "apply_write tx ts (PutStateW k v) L =
     L\<lparr>world := AList.update k v (world L), hist := hist L @ [(k, tx, ts, v)]\<rparr>"
| "apply_write tx ts (SetParamW k p) L = L\<lparr>params := AList.update k p (params L)\<rparr>"
| "apply_write tx ts (PutPrivateW c k v) L = L\<lparr>pdata := AList.update (c, k) v (pdata L)\<rparr>"
| "apply_write tx ts (DelPrivateW c k) L = L\<lparr>pdata := AList.delete (c, k) (pdata L)\<rparr>"

definition commit :: "stub \<Rightarrow> writeop list \<Rightarrow> ledger" where
  "commit stub ws = fold (apply_write (txID stub) (txTimestamp stub)) ws (snapshot stub)"

text \<open>The library \<^verbatim>\<open>statebased\<close>: a key-level endorsement policy under construction.\<close>

definition NewStateEP :: "error + policy" where
  "NewStateEP = Inr {}"

definition AddOrgs :: "policy \<Rightarrow> RoleType \<Rightarrow> string list \<Rightarrow> error + policy" where
  "AddOrgs ep role neworgs =
     Inr ({p \<in> ep. fst p \<notin> set neworgs} \<union> (\<lambda>org. (org, role)) ` set neworgs)"

definition Policy :: "policy \<Rightarrow> error + policy" where
  "Policy ep = Inr ep"

section \<open>The chaincode\<close>

subsection \<open>Identity helpers (TransFer.go, lines 522 to 589)\<close>

definition getClientOrgID :: "stub \<Rightarrow> error + string" where
  "getClientOrgID stub =
     (case GetMSPID stub of
        Inl err \<Rightarrow> Inl (Wrap ''failed getting client's orgID: %v'' err)
      | Inr clientOrgID \<Rightarrow> Inr clientOrgID)"

definition verifyClientOrgMatchesPeerOrg :: "stub \<Rightarrow> string \<Rightarrow> error + unit" where
  "verifyClientOrgMatchesPeerOrg stub clientOrgID =
     (case shim_GetMSPID stub of
        Inl err \<Rightarrow> Inl (Wrap ''failed getting peer's orgID: %v'' err)
      | Inr peerOrgID \<Rightarrow>
          if clientOrgID \<noteq> peerOrgID then
            Inl (Errorf
              ''client from org %s is not authorized to read or write private data from an org %s peer''
              [clientOrgID, peerOrgID])
          else Inr ())"

definition buildCollectionName :: "string \<Rightarrow> string" where
  "buildCollectionName clientOrgID = ''_implicit_org_'' @ clientOrgID"

definition getClientImplicitCollectionNameAndVerifyClientOrg :: "stub \<Rightarrow> error + string" where
  "getClientImplicitCollectionNameAndVerifyClientOrg stub =
     (case getClientOrgID stub of
        Inl err \<Rightarrow> Inl err
      | Inr clientOrgID \<Rightarrow>
          (case verifyClientOrgMatchesPeerOrg stub clientOrgID of
             Inl err \<Rightarrow> Inl err
           | Inr _ \<Rightarrow> Inr (buildCollectionName clientOrgID)))"

definition setCommodityStateBasedEndorsement ::
    "stub \<Rightarrow> string \<Rightarrow> string list \<Rightarrow> writeop list \<Rightarrow> (error + unit) \<times> writeop list" where
  "setCommodityStateBasedEndorsement stub assetID orgesToEndorse ws =
     (case NewStateEP of
        Inl err \<Rightarrow> (Inl err, ws)
      | Inr endorsementPolicy \<Rightarrow>
     (case AddOrgs endorsementPolicy RoleTypePeer orgesToEndorse of
        Inl err \<Rightarrow> (Inl (Wrap ''failed to add org to endorsement policy: %v'' err), ws)
      | Inr endorsementPolicy \<Rightarrow>
     (case Policy endorsementPolicy of
        Inl err \<Rightarrow> (Inl (Wrap ''failed to create endorsement policy bytes from org: %v'' err), ws)
      | Inr policy \<Rightarrow>
     (case SetStateValidationParameter stub assetID policy ws of
        (Inl err, ws) \<Rightarrow> (Inl (Wrap ''failed to set validation parameter on asset: %v'' err), ws)
      | (Inr _, ws) \<Rightarrow> (Inr (), ws)))))"

subsection \<open>\<^verbatim>\<open>ReadCommodity\<close> (Quires.go, line 26)\<close>

text \<open>The result is a pointer: \<open>Inr None\<close> is \<^verbatim>\<open>(nil, nil)\<close>, which the document \<open>null\<close> gives.\<close>

definition ReadCommodity :: "stub \<Rightarrow> string \<Rightarrow> error + Commodity option" where
  "ReadCommodity stub commodityID =
     (case GetState stub commodityID of
        Inl err \<Rightarrow> Inl (Wrap ''failed to read from world state: %v'' err)
      | Inr None \<Rightarrow> Inl (Errorf ''%s does not exist'' [commodityID])
      | Inr (Some commodityJSON) \<Rightarrow>
          (case json_Unmarshal_Commodity commodityJSON of
             Inl err \<Rightarrow> Inl err
           | Inr commodity \<Rightarrow> Inr commodity))"

subsection \<open>\<^verbatim>\<open>CreateAsset\<close> (TransFer.go, line 46)\<close>

definition CreateAsset :: "stub \<Rightarrow> string \<Rightarrow> string \<Rightarrow> (error + string) \<times> writeop list" where
  "CreateAsset stub target publicDescription =
     (case GetTransient stub of
        Inl err \<Rightarrow> (Inl (Wrap ''error getting transient: %v'' err), [])
      | Inr transientMap \<Rightarrow>
     (case transientMap ''commodity_properties'' of
        None \<Rightarrow> (Inl (Errorf ''commodity_properties key not found in the transient map'' []), [])
      | Some immutablePropertiesJSON \<Rightarrow>
     (let commodityID = hex_EncodeToString (sha256 immutablePropertiesJSON) in
      case getClientOrgID stub of
        Inl err \<Rightarrow> (Inl err, [])
      | Inr clientOrgID \<Rightarrow>
     (case verifyClientOrgMatchesPeerOrg stub clientOrgID of
        Inl err \<Rightarrow> (Inl err, [])
      | Inr _ \<Rightarrow>
     (let commodity =
            \<lparr>ObjectType = ''Commodity'', ID = commodityID, OwnerOrg = clientOrgID,
             Source = clientOrgID, Target = target, PublicDescription = publicDescription,
             DetailedInformation = []\<rparr> in
      case json_Marshal_Commodity commodity of
        Inl err \<Rightarrow> (Inl (Wrap ''failed to create commodity JSON: %v'' err), [])
      | Inr commodityBytes \<Rightarrow>
     (case PutState stub commodityID commodityBytes [] of
        (Inl err, ws) \<Rightarrow> (Inl (Wrap ''failed to put commodity in public data: %v'' err), ws)
      | (Inr _, ws) \<Rightarrow>
     (case setCommodityStateBasedEndorsement stub (ID commodity) [clientOrgID] ws of
        (Inl err, ws) \<Rightarrow>
          (Inl (Wrap
             ''failed setting state based endorsement for upstream and downstream companies: %v''
             err), ws)
      | (Inr _, ws) \<Rightarrow>
     (let collection = buildCollectionName clientOrgID in
      case PutPrivateData stub collection commodityID immutablePropertiesJSON ws of
        (Inl err, ws) \<Rightarrow> (Inl (Wrap ''failed to put Commodity private details: %v'' err), ws)
      | (Inr _, ws) \<Rightarrow> (Inr commodityID, ws)))))))))"

subsection \<open>\<^verbatim>\<open>ChangePublicDescription\<close> (TransFer.go, line 112)\<close>

definition ChangePublicDescription ::
    "stub \<Rightarrow> string \<Rightarrow> string \<Rightarrow> (error + unit) \<times> writeop list" where
  "ChangePublicDescription stub commodityID newDescription =
     (case getClientOrgID stub of
        Inl err \<Rightarrow> (Inl err, [])
      | Inr clientOrgID \<Rightarrow>
     (case ReadCommodity stub commodityID of
        Inl err \<Rightarrow> (Inl (Wrap ''failed to get commodity: %v'' err), [])
      | Inr None \<Rightarrow> (Inl NilPointerPanic, [])
      | Inr (Some commodity) \<Rightarrow>
          if clientOrgID \<noteq> OwnerOrg commodity then
            (Inl (Errorf
               ''a client from %s cannot update the description of a commodity owned by %s''
               [clientOrgID, OwnerOrg commodity]), [])
          else
            (let commodity = commodity\<lparr>PublicDescription := newDescription\<rparr> in
             case json_Marshal_Commodity commodity of
               Inl err \<Rightarrow> (Inl (Wrap ''failed to marshal commodity: %v'' err), [])
             | Inr updatedAssetJSON \<Rightarrow> PutState stub commodityID updatedAssetJSON [])))"

subsection \<open>The agreements (TransFer.go, lines 139 to 234)\<close>

definition typeCommodityForTransfer :: string where "typeCommodityForTransfer = ''T''"
definition typeCommodityKey :: string where "typeCommodityKey = ''K''"
definition typeCommodityPutReceipt :: string where "typeCommodityPutReceipt = ''PR''"
definition typeCommodityGetReceipt :: string where "typeCommodityGetReceipt = ''GR''"

definition agreeToTransfer ::
    "stub \<Rightarrow> string \<Rightarrow> string \<Rightarrow> writeop list \<Rightarrow> (error + unit) \<times> writeop list" where
  "agreeToTransfer stub commodityID transferType ws =
     (case getClientOrgID stub of
        Inl err \<Rightarrow> (Inl err, ws)
      | Inr clientOrgID \<Rightarrow>
     (case GetTransient stub of
        Inl err \<Rightarrow> (Inl (Wrap ''error getting transient: %v'' err), ws)
      | Inr transMap \<Rightarrow>
     (case transMap ''commodity_transferKey'' of
        None \<Rightarrow> (Inl (Errorf ''commodity_transferKey not found in the transient map'' []), ws)
      | Some transferKey' \<Rightarrow>
     (let collection = buildCollectionName clientOrgID in
      case CreateCompositeKey stub transferType [commodityID] of
        Inl err \<Rightarrow> (Inl (Wrap ''failed to create composite key: %v'' err), ws)
      | Inr commodityPriceKey \<Rightarrow>
     (case PutPrivateData stub collection commodityPriceKey transferKey' ws of
        (Inl err, ws) \<Rightarrow> (Inl (Wrap ''failed to put transferKey: %v'' err), ws)
      | (Inr _, ws) \<Rightarrow> (Inr (), ws))))))"

definition AgreeToPut :: "stub \<Rightarrow> string \<Rightarrow> (error + unit) \<times> writeop list" where
  "AgreeToPut stub commodityID =
     (case ReadCommodity stub commodityID of
        Inl err \<Rightarrow> (Inl err, [])
      | Inr asset \<Rightarrow>
     (case getClientOrgID stub of
        Inl err \<Rightarrow> (Inl err, [])
      | Inr clientOrgID \<Rightarrow>
     (case verifyClientOrgMatchesPeerOrg stub clientOrgID of
        Inl err \<Rightarrow> (Inl err, [])
      | Inr _ \<Rightarrow>
     (case asset of
        None \<Rightarrow> (Inl NilPointerPanic, [])
      | Some asset \<Rightarrow>
          if clientOrgID \<noteq> OwnerOrg asset then
            (Inl (Errorf ''a client from %s cannot update a commodity owned by %s''
               [clientOrgID, OwnerOrg asset]), [])
          else agreeToTransfer stub commodityID typeCommodityForTransfer []))))"

definition AgreeToGet :: "stub \<Rightarrow> string \<Rightarrow> (error + unit) \<times> writeop list" where
  "AgreeToGet stub CommodityID =
     (case GetTransient stub of
        Inl err \<Rightarrow> (Inl (Wrap ''error getting transient: %v'' err), [])
      | Inr transientMap \<Rightarrow>
     (case getClientOrgID stub of
        Inl err \<Rightarrow> (Inl err, [])
      | Inr clientOrgID \<Rightarrow>
     (case verifyClientOrgMatchesPeerOrg stub clientOrgID of
        Inl err \<Rightarrow> (Inl err, [])
      | Inr _ \<Rightarrow>
     (case transientMap ''Commodity_properties'' of
        None \<Rightarrow> (Inl (Errorf ''commodity_properties key not found in the transient map'' []), [])
      | Some immutablePropertiesJSON \<Rightarrow>
     (let collection = buildCollectionName clientOrgID in
      case PutPrivateData stub collection CommodityID immutablePropertiesJSON [] of
        (Inl err, ws) \<Rightarrow> (Inl (Wrap ''failed to put Asset private details: %v'' err), ws)
      | (Inr _, ws) \<Rightarrow> agreeToTransfer stub CommodityID typeCommodityKey ws)))))"

subsection \<open>\<^verbatim>\<open>VerifyCommodityProperties\<close> (TransFer.go, line 239)\<close>

text \<open>The Go function returns a pair: the verdict, and the error or nil.\<close>

definition VerifyCommodityProperties :: "stub \<Rightarrow> string \<Rightarrow> bool \<times> error option" where
  "VerifyCommodityProperties stub commodityID =
     (case GetTransient stub of
        Inl err \<Rightarrow> (False, Some (Wrap ''error getting transient: %v'' err))
      | Inr transMap \<Rightarrow>
     (case transMap ''Commodity_properties'' of
        None \<Rightarrow> (False, Some (Errorf ''commodity_properties key not found in the transient map'' []))
      | Some immutablePropertiesJSON \<Rightarrow>
     (case ReadCommodity stub commodityID of
        Inl err \<Rightarrow> (False, Some (Wrap ''failed to get commodity: %v'' err))
      | Inr None \<Rightarrow> (False, Some NilPointerPanic)
      | Inr (Some commodity) \<Rightarrow>
     (let collectionOwner = buildCollectionName (OwnerOrg commodity) in
      case GetPrivateDataHash stub collectionOwner commodityID of
        Inl err \<Rightarrow>
          (False, Some (Wrap
             ''failed to read commodity private properties hash from upstream company's collection: %v''
             err))
      | Inr None \<Rightarrow>
          (False, Some (Errorf ''commodity private properties hash does not exist: %s'' [commodityID]))
      | Inr (Some immutablePropertiesOnChainHash) \<Rightarrow>
     (let calculatedPropertiesHash = sha256 immutablePropertiesJSON in
      if immutablePropertiesOnChainHash \<noteq> calculatedPropertiesHash then
        (False, Some (Errorf
           ''hash %x for passed immutable properties %s does not match on-chain hash %x''
           [calculatedPropertiesHash, immutablePropertiesJSON, immutablePropertiesOnChainHash]))
      else if \<not> (hex_EncodeToString immutablePropertiesOnChainHash = commodityID) then
        (False, Some (Errorf
           ''hash %x for passed immutable properties %s does match on-chain hash %x but do not match commodityID %s: commodity was altered from its initial form''
           [calculatedPropertiesHash, immutablePropertiesJSON, immutablePropertiesOnChainHash,
            commodityID]))
      else (True, None))))))"

subsection \<open>The transfer (TransFer.go, lines 292 to 520)\<close>

definition verifyTransferConditions ::
    "stub \<Rightarrow> Commodity \<Rightarrow> string \<Rightarrow> string \<Rightarrow> bytes \<Rightarrow> error + unit" where
  "verifyTransferConditions stub commodity clientOrgID upstreamOrgID transferKayJSON =
     (if clientOrgID \<noteq> OwnerOrg commodity then
        Inl (Errorf ''a client from %s cannot transfer a commodity owned by %s''
          [clientOrgID, OwnerOrg commodity])
      else
     (let collectionPutter = buildCollectionName clientOrgID;
          collectionGetter = buildCollectionName upstreamOrgID in
      case GetPrivateDataHash stub collectionPutter (ID commodity) of
        Inl err \<Rightarrow>
          Inl (Wrap
            ''failed to read commodity private properties hash from Putter's collection: %v'' err)
      | Inr None \<Rightarrow>
          Inl (Errorf ''commodity private properties hash does not exist: %s'' [ID commodity])
      | Inr (Some ownerPropertiesOnChainHash) \<Rightarrow>
     (case GetPrivateDataHash stub collectionGetter (ID commodity) of
        Inl err \<Rightarrow>
          Inl (Wrap
            ''failed to read commodity private properties hash from Getter's collection: %v'' err)
      | Inr None \<Rightarrow>
          Inl (Errorf ''commodity private properties hash does not exist: %s'' [ID commodity])
      | Inr (Some GetterPropertiesOnChainHash) \<Rightarrow>
     (if ownerPropertiesOnChainHash \<noteq> GetterPropertiesOnChainHash then
        Inl (Errorf ''on chain hash of seller %x does not match on-chain hash of buyer %x''
          [ownerPropertiesOnChainHash, GetterPropertiesOnChainHash])
      else
     (case CreateCompositeKey stub typeCommodityForTransfer [ID commodity] of
        Inl err \<Rightarrow> Inl (Wrap ''failed to create composite key: %v'' err)
      | Inr commodityForPutKey \<Rightarrow>
     (case GetPrivateDataHash stub collectionPutter commodityForPutKey of
        Inl err \<Rightarrow> Inl (Wrap ''failed to get upstream company's transferKay's hash: %v'' err)
      | Inr None \<Rightarrow>
          Inl (Errorf ''upstream company's transferKay for %s does not exist'' [ID commodity])
      | Inr (Some upstreamTransferKeyHash) \<Rightarrow>
     (case CreateCompositeKey stub typeCommodityKey [ID commodity] of
        Inl err \<Rightarrow> Inl (Wrap ''failed to create composite key: %v'' err)
      | Inr commodityForGetKey \<Rightarrow>
     (case GetPrivateDataHash stub collectionGetter commodityForGetKey of
        Inl err \<Rightarrow> Inl (Wrap ''failed to get downstream company's transferKay's hash: %v'' err)
      | Inr None \<Rightarrow>
          Inl (Errorf ''downstream company's transferKay for %s does not exist'' [ID commodity])
      | Inr (Some downstreamTransferKeyHash) \<Rightarrow>
     (let calculatedKeyHash = sha256 transferKayJSON in
      if calculatedKeyHash \<noteq> upstreamTransferKeyHash then
        Inl (Errorf
          ''hash %x for passed key JSON %s does not match on-chain hash %x, wrong trade id and tranferKey with upstream company's''
          [calculatedKeyHash, transferKayJSON, upstreamTransferKeyHash])
      else if calculatedKeyHash \<noteq> downstreamTransferKeyHash then
        Inl (Errorf
          ''hash %x for passed key JSON %s does not match on-chain hash %x, wrong trade id and tranferKey with downstream company's''
          [calculatedKeyHash, transferKayJSON, downstreamTransferKeyHash])
      else Inr ())))))))))"

definition transferCommodityState ::
    "stub \<Rightarrow> Commodity \<Rightarrow> string \<Rightarrow> string \<Rightarrow> int \<Rightarrow> writeop list \<Rightarrow> (error + unit) \<times> writeop list" where
  "transferCommodityState stub commodity clientOrgID upstreamOrgID transferKey' ws =
     (let commodity = commodity\<lparr>Source := OwnerOrg commodity\<rparr>;
          commodity = commodity\<lparr>OwnerOrg := upstreamOrgID\<rparr> in
      case json_Marshal_Commodity commodity of
        Inl err \<Rightarrow> (Inl err, ws)
      | Inr updatedCommodity \<Rightarrow>
     (case PutState stub (ID commodity) updatedCommodity ws of
        (Inl err, ws) \<Rightarrow> (Inl (Wrap ''failed to write commodity for upstream: %v'' err), ws)
      | (Inr _, ws) \<Rightarrow>
     (case setCommodityStateBasedEndorsement stub (ID commodity) [upstreamOrgID] ws of
        (Inl err, ws) \<Rightarrow>
          (Inl (Wrap ''failed setting state based endorsement for new owner: %v'' err), ws)
      | (Inr _, ws) \<Rightarrow>
     (let collectionPutter = buildCollectionName clientOrgID in
      case DelPrivateData stub collectionPutter (ID commodity) ws of
        (Inl err, ws) \<Rightarrow>
          (Inl (Wrap ''failed to delete commodity private details from upstream: %v'' err), ws)
      | (Inr _, ws) \<Rightarrow>
     (case CreateCompositeKey stub typeCommodityForTransfer [ID commodity] of
        Inl err \<Rightarrow> (Inl (Wrap ''failed to create composite key for upstream: %v'' err), ws)
      | Inr commodityTransferKey \<Rightarrow>
     (case DelPrivateData stub collectionPutter commodityTransferKey ws of
        (Inl err, ws) \<Rightarrow>
          (Inl (Wrap
             ''failed to delete commodity transferKey from implicit private data collection for Putter: %v''
             err), ws)
      | (Inr _, ws) \<Rightarrow>
     (let collectionGetter = buildCollectionName upstreamOrgID in
      case CreateCompositeKey stub typeCommodityKey [ID commodity] of
        Inl err \<Rightarrow> (Inl (Wrap ''failed to create composite key for Getter: %v'' err), ws)
      | Inr commodityTransferKey \<Rightarrow>
     (case DelPrivateData stub collectionGetter commodityTransferKey ws of
        (Inl err, ws) \<Rightarrow>
          (Inl (Wrap
             ''failed to delete commodity transferKey from implicit private data collection for Getter: %v''
             err), ws)
      | (Inr _, ws) \<Rightarrow>
     (case CreateCompositeKey stub typeCommodityGetReceipt [ID commodity, GetTxID stub] of
        Inl err \<Rightarrow> (Inl (Wrap ''failed to create composite key for receipt: %v'' err), ws)
      | Inr receiptGetKey \<Rightarrow>
     (case GetTxTimestamp stub of
        Inl err \<Rightarrow> (Inl (Wrap ''failed to create timestamp for receipt: %v'' err), ws)
      | Inr txTimestamp' \<Rightarrow>
     (case ptypes_Timestamp txTimestamp' of
        Inl err \<Rightarrow> (Inl err, ws)
      | Inr timestamp' \<Rightarrow>
     (let commodityReceipt = \<lparr>transferKey = transferKey', timestamp = timestamp'\<rparr> in
      case json_Marshal_receipt commodityReceipt of
        Inl err \<Rightarrow> (Inl (Wrap ''failed to marshal receipt: %v'' err), ws)
      | Inr receipt' \<Rightarrow>
     (case PutPrivateData stub collectionGetter receiptGetKey receipt' ws of
        (Inl err, ws) \<Rightarrow>
          (Inl (Wrap ''failed to put private commodity receipt for Getter: %v'' err), ws)
      | (Inr _, ws) \<Rightarrow>
     (case CreateCompositeKey stub typeCommodityPutReceipt [GetTxID stub, ID commodity] of
        Inl err \<Rightarrow> (Inl (Wrap ''failed to create composite key for receipt: %v'' err), ws)
      | Inr receiptPutKey \<Rightarrow>
     (case PutPrivateData stub collectionPutter receiptPutKey receipt' ws of
        (Inl err, ws) \<Rightarrow>
          (Inl (Wrap ''failed to put private commodity receipt for Putter: %v'' err), ws)
      | (Inr _, ws) \<Rightarrow> (Inr (), ws))))))))))))))))"

definition TransferCommodity :: "stub \<Rightarrow> string \<Rightarrow> string \<Rightarrow> (error + unit) \<times> writeop list" where
  "TransferCommodity stub commodityID downStreamOrgID =
     (case getClientOrgID stub of
        Inl err \<Rightarrow> (Inl err, [])
      | Inr clientOrgID \<Rightarrow>
     (case GetTransient stub of
        Inl err \<Rightarrow> (Inl (Wrap ''error getting transient data: %v'' err), [])
      | Inr transMap \<Rightarrow>
     (case transMap ''Commodity_transferKey'' of
        None \<Rightarrow> (Inl (Errorf ''commodity_transferKey key not found in the transient map'' []), [])
      | Some transferKeyJSON \<Rightarrow>
     (case json_Unmarshal_Agreement transferKeyJSON of
        Inl err \<Rightarrow> (Inl (Wrap ''failed to unmarshal price JSON: %v'' err), [])
      | Inr agreement \<Rightarrow>
     (case ReadCommodity stub commodityID of
        Inl err \<Rightarrow> (Inl (Wrap ''failed to get commodity: %v'' err), [])
      | Inr None \<Rightarrow> (Inl NilPointerPanic, [])
      | Inr (Some commodity) \<Rightarrow>
     (case verifyTransferConditions stub commodity clientOrgID downStreamOrgID transferKeyJSON of
        Inl err \<Rightarrow> (Inl (Wrap ''failed transfer verification: %v'' err), [])
      | Inr _ \<Rightarrow>
     (case transferCommodityState stub commodity clientOrgID downStreamOrgID
             (TransferKey agreement) [] of
        (Inl err, ws) \<Rightarrow> (Inl (Wrap ''failed commodity transfer: %v'' err), ws)
      | (Inr _, ws) \<Rightarrow> (Inr (), ws))))))))"

subsection \<open>\<^verbatim>\<open>GetCommodityHashId\<close> (TransFer.go, line 592)\<close>

definition GetCommodityHashId :: "stub \<Rightarrow> error + string" where
  "GetCommodityHashId stub =
     (case GetTransient stub of
        Inl err \<Rightarrow> Inl (Wrap ''error getting transient: %v'' err)
      | Inr transientMap \<Rightarrow>
     (case transientMap ''Commodity_properties'' of
        None \<Rightarrow> Inl (Errorf ''commodity_properties key not found in the transient map'' [])
      | Some propertiesJSON \<Rightarrow>
     (let commodityID = hex_EncodeToString (sha256 propertiesJSON) in
      case ReadCommodity stub commodityID of
        Inl err \<Rightarrow>
          Inl (Wrap
            ''failed to get commodity: %v, commodity properies provided do not represent any on chain commodity''
            err)
      | Inr None \<Rightarrow> Inl NilPointerPanic
      | Inr (Some commodity) \<Rightarrow>
          if ID commodity \<noteq> commodityID then
            Inl (Errorf ''commodity properies provided do not correpond to any on chain commodity'' [])
          else Inr (ID commodity))))"

subsection \<open>The queries (Quires.go, lines 45 to 173)\<close>

definition GetCommodityPrivateProperties :: "stub \<Rightarrow> string \<Rightarrow> error + string" where
  "GetCommodityPrivateProperties stub commodityID =
     (case getClientImplicitCollectionNameAndVerifyClientOrg stub of
        Inl err \<Rightarrow> Inl err
      | Inr collection \<Rightarrow>
     (case GetPrivateData stub collection commodityID of
        Inl err \<Rightarrow>
          Inl (Wrap
            ''failed to read commodity private properties from client org's collection: %v'' err)
      | Inr None \<Rightarrow>
          Inl (Errorf ''commodity private details does not exist in client org's collection: %s''
            [commodityID])
      | Inr (Some immutableProperties) \<Rightarrow> Inr immutableProperties))"

definition getTransferKey :: "stub \<Rightarrow> string \<Rightarrow> string \<Rightarrow> error + string" where
  "getTransferKey stub commodityID keyType =
     (case getClientImplicitCollectionNameAndVerifyClientOrg stub of
        Inl err \<Rightarrow> Inl err
      | Inr collection \<Rightarrow>
     (case CreateCompositeKey stub keyType [commodityID] of
        Inl err \<Rightarrow> Inl (Wrap ''failed to create composite key: %v'' err)
      | Inr commodityTransferKey \<Rightarrow>
     (case GetPrivateData stub collection commodityTransferKey of
        Inl err \<Rightarrow>
          Inl (Wrap
            ''failed to read commodity key from implicit private data collection: %v'' err)
      | Inr None \<Rightarrow> Inl (Errorf ''commodity key does not exist: %s'' [commodityID])
      | Inr (Some key) \<Rightarrow> Inr key)))"

definition GetCommodityUpstreamKey :: "stub \<Rightarrow> string \<Rightarrow> error + string" where
  "GetCommodityUpstreamKey stub commodityID =
     getTransferKey stub commodityID typeCommodityForTransfer"

definition GetCommodityDownstreamKey :: "stub \<Rightarrow> string \<Rightarrow> error + string" where
  "GetCommodityDownstreamKey stub commodityID =
     getTransferKey stub commodityID typeCommodityKey"

text \<open>The loop of \<^verbatim>\<open>queryAgreementsByType\<close> over the entries the iterator yields.\<close>

fun agreementsOf :: "(string \<times> bytes) list \<Rightarrow> Agreement list \<Rightarrow> error + Agreement list" where
  "agreementsOf [] agreements = Inr agreements"
| "agreementsOf (resp # rest) agreements =
     (case json_Unmarshal_Agreement (snd resp) of
        Inl err \<Rightarrow> Inl err
      | Inr agreement \<Rightarrow> agreementsOf rest (agreements @ [agreement]))"

definition queryAgreementsByType :: "stub \<Rightarrow> string \<Rightarrow> error + Agreement list" where
  "queryAgreementsByType stub agreeType =
     (case getClientImplicitCollectionNameAndVerifyClientOrg stub of
        Inl err \<Rightarrow> Inl err
      | Inr collection \<Rightarrow>
     (case GetPrivateDataByPartialCompositeKey stub collection agreeType [] of
        Inl err \<Rightarrow> Inl (Wrap ''failed to read from private data collection: %v'' err)
      | Inr agreementsIterator \<Rightarrow> agreementsOf agreementsIterator []))"

definition QueryCommodityPutAgreements :: "stub \<Rightarrow> error + Agreement list" where
  "QueryCommodityPutAgreements stub = queryAgreementsByType stub typeCommodityForTransfer"

definition QueryCommodityGetAgreements :: "stub \<Rightarrow> error + Agreement list" where
  "QueryCommodityGetAgreements stub = queryAgreementsByType stub typeCommodityKey"

text \<open>The loop of \<^verbatim>\<open>QueryCommodityHistory\<close>.\<close>

fun historyOf :: "(string \<times> Timestamp \<times> bytes) list \<Rightarrow> QueryResult list \<Rightarrow> error + QueryResult list" where
  "historyOf [] results = Inr results"
| "historyOf ((respTxId, respTimestamp, respValue) # rest) results =
     (case json_Unmarshal_Commodity respValue of
        Inl err \<Rightarrow> Inl err
      | Inr commodity \<Rightarrow>
     (case ptypes_Timestamp respTimestamp of
        Inl err \<Rightarrow> Inl err
      | Inr timestamp' \<Rightarrow>
          historyOf rest
            (results @ [\<lparr>Record = commodity, TxId = respTxId, Timestamp = timestamp'\<rparr>])))"

definition QueryCommodityHistory :: "stub \<Rightarrow> string \<Rightarrow> error + QueryResult list" where
  "QueryCommodityHistory stub assetID =
     (case GetHistoryForKey stub assetID of
        Inl err \<Rightarrow> Inl err
      | Inr resultsIterator \<Rightarrow> historyOf resultsIterator [])"


section \<open>Properties\<close>

text \<open>
  C6, as the code has it: the partition name of an organization is the organization id
  prefixed with \<open>_implicit_org_\<close> (with the leading underscore), and the mapping is
  one-to-one: two organizations have the same partition name exactly when they are the
  same organization.
\<close>

theorem buildCollectionName_prefix_injective:
  "buildCollectionName orgID = ''_implicit_org_'' @ orgID \<and>
   (buildCollectionName a = buildCollectionName b) = (a = b)"
  by (simp add: buildCollectionName_def)

text \<open>
  C6, as the specification words it (\<open>implicit_org_<orgID>\<close>, no leading underscore),
  fails for the organization \<open>Org1MSP\<close>.
\<close>

theorem buildCollectionName_spec_form_counterexample:
  "buildCollectionName ''Org1MSP'' \<noteq> ''implicit_org_'' @ ''Org1MSP''"
  by (simp add: buildCollectionName_def)

end
